theory Spec2Isabelle
  imports Main
begin

section \<open>Values shared by the model\<close>

text \<open>
  A point in time is the number of milliseconds since the epoch, the value that
  \<^verbatim>\<open>Date.prototype.getTime\<close> returns. Every request handler reads the clock; the model
  passes one clock reading \<open>now\<close> to each call.
\<close>

type_synonym time = int

text \<open>
  A JavaScript \<^verbatim>\<open>Date\<close> holds a time value of at most 8.64e15 milliseconds in absolute
  value; \<^verbatim>\<open>new Date(v)\<close> with \<open>v\<close> outside that range is the Invalid Date, and no
  exception is raised.
\<close>

datatype date = Date time | Invalid_Date

definition new_Date :: "int \<Rightarrow> date" where
  "new_Date v = (if \<bar>v\<bar> \<le> 8640000000000000 then Date v else Invalid_Date)"

text \<open>What a \<^verbatim>\<open>throw\<close> carries: an \<^verbatim>\<open>Error\<close> with its message, or some other value.\<close>

datatype thrown = Error string | Thrown_other

section \<open>utils/jwt.ts: getTokenExpirationTime\<close>

definition is_digit :: "char \<Rightarrow> bool" where
  "is_digit c \<longleftrightarrow> 48 \<le> (of_char c :: int) \<and> (of_char c :: int) \<le> 57"

definition digit_val :: "char \<Rightarrow> int" where
  "digit_val c = of_char c - 48"

text \<open>
  \<^verbatim>\<open>parseInt(amount)\<close> on a string of decimal digits. The source computes in doubles;
  the model computes in integers. For a clock reading after the epoch the two agree:
  amounts, products and sums are exact up to \<open>2^53\<close>, which is beyond every value that
  gives a valid \<^verbatim>\<open>Date\<close> below, and a rounded value above it still gives the Invalid
  Date.
\<close>

definition parseInt :: "string \<Rightarrow> int" where
  "parseInt ds = foldl (\<lambda>a c. 10 * a + digit_val c) 0 ds"

text \<open>
  \<^verbatim>\<open>expiresIn.match(/^(\d+)([smhd])$/)\<close>: the two capture groups when the whole string
  is one or more ASCII digits followed by one unit letter, and no match otherwise.
\<close>

definition match_expiresIn :: "string \<Rightarrow> (string \<times> char) option" where
  "match_expiresIn expiresIn =
     (let amount = takeWhile is_digit expiresIn
      in case dropWhile is_digit expiresIn of
           [unit] \<Rightarrow> if amount \<noteq> [] \<and> unit \<in> set ''smhd'' then Some (amount, unit) else None
         | _ \<Rightarrow> None)"

text \<open>The table \<^verbatim>\<open>milliseconds\<close>; a key that is not in it reads as \<^verbatim>\<open>undefined\<close>.\<close>

definition milliseconds :: "char \<Rightarrow> int option" where
  "milliseconds unit =
     (if unit = CHR ''s'' then Some 1000
      else if unit = CHR ''m'' then Some (60 * 1000)
      else if unit = CHR ''h'' then Some (60 * 60 * 1000)
      else if unit = CHR ''d'' then Some (24 * 60 * 60 * 1000)
      else None)"

definition getTokenExpirationTime :: "string \<Rightarrow> time \<Rightarrow> thrown + date" where
  "getTokenExpirationTime expiresIn now =
     (case match_expiresIn expiresIn of
        None \<Rightarrow> Inl (Error ''Invalid expires in format'')
      | Some (amount, unit) \<Rightarrow>
          (case milliseconds unit of
             None \<Rightarrow> Inl (Error ''Invalid time unit'')
           | Some multiplier \<Rightarrow>
               if multiplier = 0 then Inl (Error ''Invalid time unit'')
               else Inr (new_Date (now + parseInt amount * multiplier))))"

section \<open>Rows, payloads and responses\<close>

text \<open>
  The payload interface of utils/jwt.ts. The object that \<^verbatim>\<open>generateAccessToken\<close> and
  \<^verbatim>\<open>generateRefreshToken\<close> hand to the library has no \<open>iat\<close> and no \<open>exp\<close>.
\<close>

record JwtPayload =
  userId :: nat
  email :: string
  role :: string
  iat :: "int option"
  exp :: "int option"

text \<open>
  Modelled from the spec: the table declarations of db/schema are not among the sources.
  Section 3 of the specification gives the columns of a user and of a refresh token
  record: generated unique ids, a unique email, a unique token, role \<open>user\<close> and an
  active account by default.
\<close>

record user_row =
  u_id :: nat
  u_name :: string
  u_email :: string
  u_password :: string
  u_role :: string
  u_isActive :: bool
  u_createdAt :: time
  u_updatedAt :: time

record SafeUser =
  su_id :: nat
  su_name :: string
  su_email :: string
  su_role :: string
  su_isActive :: bool
  su_createdAt :: time
  su_updatedAt :: time

record refreshToken_row =
  rt_id :: nat
  rt_userId :: nat
  rt_token :: string
  rt_expiresAt :: time
  rt_createdAt :: time

text \<open>The two tables, in the order of insertion, and the next value of each id sequence.\<close>

record db =
  users :: "user_row list"
  refreshTokens :: "refreshToken_row list"
  users_id_seq :: nat
  refreshTokens_id_seq :: nat

text \<open>\<^verbatim>\<open>const { password: _, ...safeUser } = user\<close>\<close>

definition omit_password :: "user_row \<Rightarrow> SafeUser" where
  "omit_password user =
     \<lparr>su_id = u_id user, su_name = u_name user, su_email = u_email user,
      su_role = u_role user, su_isActive = u_isActive user,
      su_createdAt = u_createdAt user, su_updatedAt = u_updatedAt user\<rparr>"

text \<open>
  Modelled from the spec: \<^verbatim>\<open>db.insert(users)\<close> under the unique constraint on the email
  column; a violated constraint is an exception of the driver.
\<close>

definition insert_user :: "db \<Rightarrow> string \<Rightarrow> string \<Rightarrow> string \<Rightarrow> time \<Rightarrow> thrown + db \<times> user_row" where
  "insert_user s name' email' password' now =
     (if email' \<in> set (map u_email (users s))
      then Inl (Error ''duplicate key value violates unique constraint'')
      else
        let user = \<lparr>u_id = users_id_seq s, u_name = name', u_email = email',
                    u_password = password', u_role = ''user'', u_isActive = True,
                    u_createdAt = now, u_updatedAt = now\<rparr>
        in Inr (s\<lparr>users := users s @ [user], users_id_seq := Suc (users_id_seq s)\<rparr>, user))"

text \<open>
  Modelled from the spec: \<^verbatim>\<open>db.insert(refreshTokens)\<close> under the unique constraint on the
  token column. An Invalid Date cannot be written to a timestamp column: the driver
  throws when it serialises the value.
\<close>

definition insert_refreshToken :: "db \<Rightarrow> nat \<Rightarrow> string \<Rightarrow> date \<Rightarrow> time \<Rightarrow> thrown + db" where
  "insert_refreshToken s uid token expiresAt now =
     (case expiresAt of
        Invalid_Date \<Rightarrow> Inl (Error ''Invalid time value'')
      | Date t \<Rightarrow>
          if token \<in> set (map rt_token (refreshTokens s))
          then Inl (Error ''duplicate key value violates unique constraint'')
          else Inr (s\<lparr>refreshTokens := refreshTokens s @
                        [\<lparr>rt_id = refreshTokens_id_seq s, rt_userId = uid, rt_token = token,
                          rt_expiresAt = t, rt_createdAt = now\<rparr>],
                      refreshTokens_id_seq := Suc (refreshTokens_id_seq s)\<rparr>))"

text \<open>The \<^verbatim>\<open>data\<close> member of an \<^verbatim>\<open>ApiResponse\<close>, one constructor per handler.\<close>

datatype response_data =
    AuthResponse SafeUser string string
  | TokenPair string string
  | Profile SafeUser
  | Null

record ValidationError =
  field :: string
  issue :: string

record ApiResponse =
  status :: nat
  success :: bool
  data :: "response_data option"
  error :: "string option"
  message :: "string option"
  details :: "ValidationError list option"

definition json_error :: "nat \<Rightarrow> string \<Rightarrow> ApiResponse" where
  "json_error code e =
     \<lparr>status = code, success = False, data = None, error = Some e, message = None,
      details = None\<rparr>"

definition json_data :: "nat \<Rightarrow> response_data \<Rightarrow> string \<Rightarrow> ApiResponse" where
  "json_data code d m =
     \<lparr>status = code, success = True, data = Some d, error = None, message = Some m,
      details = None\<rparr>"

text \<open>
  A line written through the logger: its level and its message (the context object of
  the call is left out).
\<close>

datatype log_entry = Log_info string | Log_warn string | Log_error string

record outcome =
  store :: db
  response :: ApiResponse
  logs :: "log_entry list"

section \<open>What the code gets from outside\<close>

text \<open>
  The environment variables that utils/jwt.ts and the controller read, and the library
  functions they call: \<^verbatim>\<open>jwt.sign\<close> and \<^verbatim>\<open>jwt.verify\<close> (which read the clock and may
  throw), \<^verbatim>\<open>bcrypt.hash\<close>, \<^verbatim>\<open>bcrypt.compare\<close> and the email test of the validation
  library. They are parameters of the model: nothing is assumed about them except where
  a theorem says so.
\<close>

record environment =
  env_JWT_SECRET :: "string option"
  env_JWT_EXPIRES_IN :: "string option"
  env_JWT_REFRESH_SECRET :: "string option"
  env_JWT_REFRESH_EXPIRES_IN :: "string option"
  jwt_sign :: "JwtPayload \<Rightarrow> string \<Rightarrow> string \<Rightarrow> time \<Rightarrow> thrown + string"
  jwt_verify :: "string \<Rightarrow> string \<Rightarrow> time \<Rightarrow> thrown + JwtPayload"
  bcrypt_hash :: "string \<Rightarrow> nat \<Rightarrow> string"
  bcrypt_compare :: "string \<Rightarrow> string \<Rightarrow> bool"
  zod_email :: "string \<Rightarrow> bool"

text \<open>
  \<^verbatim>\<open>process.env.X || d\<close>: an unset and an empty variable both give the default.
  utils/jwt.ts reads the variables when the module loads and the controller reads the
  refresh lifetime at each call; the environment is taken not to change in between.
\<close>

definition or_default :: "string option \<Rightarrow> string \<Rightarrow> string" where
  "or_default v d = (case v of None \<Rightarrow> d | Some x \<Rightarrow> if x = [] then d else x)"

definition JWT_SECRET :: "environment \<Rightarrow> string" where
  "JWT_SECRET E = or_default (env_JWT_SECRET E) ''your-super-secret-jwt-key''"

definition JWT_EXPIRES_IN :: "environment \<Rightarrow> string" where
  "JWT_EXPIRES_IN E = or_default (env_JWT_EXPIRES_IN E) ''15m''"

definition JWT_REFRESH_SECRET :: "environment \<Rightarrow> string" where
  "JWT_REFRESH_SECRET E = or_default (env_JWT_REFRESH_SECRET E) ''your-super-secret-refresh-key''"

definition JWT_REFRESH_EXPIRES_IN :: "environment \<Rightarrow> string" where
  "JWT_REFRESH_EXPIRES_IN E = or_default (env_JWT_REFRESH_EXPIRES_IN E) ''7d''"

section \<open>utils/jwt.ts: the token codec\<close>

definition generateAccessToken :: "environment \<Rightarrow> SafeUser \<Rightarrow> time \<Rightarrow> thrown + string" where
  "generateAccessToken E user now =
     jwt_sign E \<lparr>userId = su_id user, email = su_email user, role = su_role user,
                 iat = None, exp = None\<rparr>
       (JWT_SECRET E) (JWT_EXPIRES_IN E) now"

definition generateRefreshToken :: "environment \<Rightarrow> SafeUser \<Rightarrow> time \<Rightarrow> thrown + string" where
  "generateRefreshToken E user now =
     jwt_sign E \<lparr>userId = su_id user, email = su_email user, role = su_role user,
                 iat = None, exp = None\<rparr>
       (JWT_REFRESH_SECRET E) (JWT_REFRESH_EXPIRES_IN E) now"

text \<open>
  The two verifiers return the payload or \<^verbatim>\<open>null\<close> (here \<open>None\<close>) together with the
  lines they log; the \<^verbatim>\<open>catch\<close> takes every value the library throws.
\<close>

definition verifyAccessToken :: "environment \<Rightarrow> string \<Rightarrow> time \<Rightarrow> JwtPayload option \<times> log_entry list" where
  "verifyAccessToken E token now =
     (case jwt_verify E token (JWT_SECRET E) now of
        Inr payload \<Rightarrow> (Some payload, [])
      | Inl err \<Rightarrow> (None, [Log_warn ''Access token verification failed'']))"

definition verifyRefreshToken :: "environment \<Rightarrow> string \<Rightarrow> time \<Rightarrow> JwtPayload option \<times> log_entry list" where
  "verifyRefreshToken E token now =
     (case jwt_verify E token (JWT_REFRESH_SECRET E) now of
        Inr payload \<Rightarrow> (Some payload, [])
      | Inl err \<Rightarrow> (None, [Log_warn ''Refresh token verification failed'']))"

section \<open>schemas/authSchemas.ts and middleware/validation.ts\<close>

text \<open>
  Strings are lists of bytes here. The characters that \<^verbatim>\<open>trim\<close> removes and that
  \<^verbatim>\<open>toLowerCase\<close> changes are given for ASCII, which is all an accepted email address
  holds.
\<close>

definition is_space :: "char \<Rightarrow> bool" where
  "is_space c \<longleftrightarrow> (of_char c :: int) \<in> {9, 10, 11, 12, 13, 32}"

definition trim :: "string \<Rightarrow> string" where
  "trim v = rev (dropWhile is_space (rev (dropWhile is_space v)))"

definition is_upper :: "char \<Rightarrow> bool" where
  "is_upper c \<longleftrightarrow> 65 \<le> (of_char c :: int) \<and> (of_char c :: int) \<le> 90"

definition is_lower :: "char \<Rightarrow> bool" where
  "is_lower c \<longleftrightarrow> 97 \<le> (of_char c :: int) \<and> (of_char c :: int) \<le> 122"

definition lower_char :: "char \<Rightarrow> char" where
  "lower_char c = (if is_upper c then char_of (of_char c + 32 :: int) else c)"

definition toLowerCase :: "string \<Rightarrow> string" where
  "toLowerCase v = map lower_char v"

text \<open>
  A check of a string schema gives the messages of the issues it raises and the value
  it passes on; a schema runs its checks in the order they are chained, each on the
  value the one before passed on, and collects every issue.
\<close>

type_synonym check = "string \<Rightarrow> string list \<times> string"

definition z_min :: "nat \<Rightarrow> string \<Rightarrow> check" where
  "z_min n msg v = (if length v < n then [msg] else [], v)"

definition z_max :: "nat \<Rightarrow> string \<Rightarrow> check" where
  "z_max n msg v = (if length v > n then [msg] else [], v)"

definition z_email :: "environment \<Rightarrow> string \<Rightarrow> check" where
  "z_email E msg v = (if zod_email E v then [] else [msg], v)"

definition z_regex :: "(string \<Rightarrow> bool) \<Rightarrow> string \<Rightarrow> check" where
  "z_regex matches msg v = (if matches v then [] else [msg], v)"

definition z_toLowerCase :: check where
  "z_toLowerCase v = ([], toLowerCase v)"

definition z_trim :: check where
  "z_trim v = ([], trim v)"

fun run_checks :: "check list \<Rightarrow> string \<Rightarrow> string list \<times> string" where
  "run_checks [] v = ([], v)"
| "run_checks (c # cs) v =
     (case c v of (ms, v') \<Rightarrow> (case run_checks cs v' of (ms', v'') \<Rightarrow> (ms @ ms', v'')))"

text \<open>A member of the body that is absent is \<open>None\<close>.\<close>

definition z_string :: "string \<Rightarrow> check list \<Rightarrow> string option \<Rightarrow> ValidationError list \<times> string" where
  "z_string key checks raw =
     (case raw of
        None \<Rightarrow> ([\<lparr>field = key, issue = ''Required''\<rparr>], [])
      | Some v \<Rightarrow>
          (case run_checks checks v of
             (ms, v') \<Rightarrow> (map (\<lambda>m. \<lparr>field = key, issue = m\<rparr>) ms, v')))"

text \<open>
  \<^verbatim>\<open>/^(?=.*[a-z])(?=.*[A-Z])(?=.*\d)/\<close>: the dot stops at a line terminator, so the three
  characters are looked for in the first line of the password.
\<close>

definition password_regex :: "string \<Rightarrow> bool" where
  "password_regex v =
     (let line = takeWhile (\<lambda>c. (of_char c :: int) \<noteq> 10 \<and> (of_char c :: int) \<noteq> 13) v
      in list_ex is_lower line \<and> list_ex is_upper line \<and> list_ex is_digit line)"

record register_body =
  rb_name :: "string option"
  rb_email :: "string option"
  rb_password :: "string option"

record RegisterInput =
  ri_name :: string
  ri_email :: string
  ri_password :: string

record login_body =
  lb_email :: "string option"
  lb_password :: "string option"

record LoginInput =
  li_email :: string
  li_password :: string

record refreshToken_body =
  tb_refreshToken :: "string option"

record RefreshTokenInput =
  refreshToken_of :: string

definition registerSchema :: "environment \<Rightarrow> register_body \<Rightarrow> ValidationError list \<times> RegisterInput" where
  "registerSchema E b =
     (case z_string ''name''
             [z_min 1 ''Name is required'',
              z_max 255 ''Name must be less than 255 characters'',
              z_trim] (rb_name b) of (e1, n) \<Rightarrow>
     (case z_string ''email''
             [z_email E ''Invalid email format'',
              z_max 255 ''Email must be less than 255 characters'',
              z_toLowerCase,
              z_trim] (rb_email b) of (e2, m) \<Rightarrow>
     (case z_string ''password''
             [z_min 6 ''Password must be at least 6 characters'',
              z_max 100 ''Password must be less than 100 characters'',
              z_regex password_regex
                ''Password must contain at least one lowercase letter, one uppercase letter, and one number'']
             (rb_password b) of (e3, p) \<Rightarrow>
      (e1 @ e2 @ e3, \<lparr>ri_name = n, ri_email = m, ri_password = p\<rparr>))))"

definition loginSchema :: "environment \<Rightarrow> login_body \<Rightarrow> ValidationError list \<times> LoginInput" where
  "loginSchema E b =
     (case z_string ''email''
             [z_email E ''Invalid email format'', z_toLowerCase, z_trim] (lb_email b) of (e1, m) \<Rightarrow>
     (case z_string ''password'' [z_min 1 ''Password is required''] (lb_password b) of (e2, p) \<Rightarrow>
      (e1 @ e2, \<lparr>li_email = m, li_password = p\<rparr>)))"

definition refreshTokenSchema :: "refreshToken_body \<Rightarrow> ValidationError list \<times> RefreshTokenInput" where
  "refreshTokenSchema b =
     (case z_string ''refreshToken'' [z_min 1 ''Refresh token is required'']
             (tb_refreshToken b) of (e1, t) \<Rightarrow>
      (e1, \<lparr>refreshToken_of = t\<rparr>))"

text \<open>
  \<^verbatim>\<open>validateBody(schema)\<close>: the parsed body replaces the request's body and the handler
  runs, or the request ends here with status 400.
\<close>

definition validateBody ::
  "('b \<Rightarrow> ValidationError list \<times> 'i) \<Rightarrow> 'b \<Rightarrow> (ApiResponse \<times> log_entry list) + 'i" where
  "validateBody schema b =
     (case schema b of
        ([], validatedData) \<Rightarrow> Inr validatedData
      | (validationErrors, _) \<Rightarrow>
          Inl (\<lparr>status = 400, success = False, data = None, error = Some ''Validation failed'',
                message = None, details = Some validationErrors\<rparr>,
               [Log_warn ''Body validation failed'']))"

section \<open>controllers/authController.ts\<close>

text \<open>
  Each handler takes the store and returns it with the response and the lines logged.
  A statement of the handler that throws ends in its \<^verbatim>\<open>catch\<close> with status 500; what
  was written to the store before stays written. The store itself is taken to be
  reachable: a lost connection is outside the model.
\<close>

definition caught :: "db \<Rightarrow> string \<Rightarrow> string \<Rightarrow> log_entry list \<Rightarrow> outcome" where
  "caught s logged e earlier =
     \<lparr>store = s, response = json_error 500 e, logs = earlier @ [Log_error logged]\<rparr>"

definition register :: "environment \<Rightarrow> db \<Rightarrow> RegisterInput \<Rightarrow> time \<Rightarrow> outcome" where
  "register E s input now =
     (let name' = ri_name input; email' = ri_email input; password' = ri_password input
      in case find (\<lambda>u. u_email u = email') (users s) of
           Some existingUser \<Rightarrow>
             \<lparr>store = s, response = json_error 400 ''User with this email already exists'',
              logs = [Log_warn ''Registration failed: user already exists'']\<rparr>
         | None \<Rightarrow>
            (let saltRounds = 12;
                 hashedPassword = bcrypt_hash E password' saltRounds
             in case insert_user s name' email' hashedPassword now of
                  Inl err \<Rightarrow> caught s ''Failed to register user'' ''Failed to register user'' []
                | Inr (s1, user) \<Rightarrow>
                   (let safeUser = omit_password user
                    in case generateAccessToken E safeUser now of
                         Inl err \<Rightarrow> caught s1 ''Failed to register user'' ''Failed to register user'' []
                       | Inr accessToken \<Rightarrow>
                   (case generateRefreshToken E safeUser now of
                         Inl err \<Rightarrow> caught s1 ''Failed to register user'' ''Failed to register user'' []
                       | Inr refreshToken \<Rightarrow>
                   (case getTokenExpirationTime (JWT_REFRESH_EXPIRES_IN E) now of
                         Inl err \<Rightarrow> caught s1 ''Failed to register user'' ''Failed to register user'' []
                       | Inr expiresAt \<Rightarrow>
                   (case insert_refreshToken s1 (u_id user) refreshToken expiresAt now of
                         Inl err \<Rightarrow> caught s1 ''Failed to register user'' ''Failed to register user'' []
                       | Inr s2 \<Rightarrow>
                           \<lparr>store = s2,
                            response = json_data 201 (AuthResponse safeUser accessToken refreshToken)
                                         ''User registered successfully'',
                            logs = [Log_info ''User registered successfully'']\<rparr>))))))"

definition login :: "environment \<Rightarrow> db \<Rightarrow> LoginInput \<Rightarrow> time \<Rightarrow> outcome" where
  "login E s input now =
     (let email' = li_email input; password' = li_password input
      in case find (\<lambda>u. u_email u = email') (users s) of
           None \<Rightarrow>
             \<lparr>store = s, response = json_error 401 ''Invalid email or password'',
              logs = [Log_warn ''Login failed: user not found'']\<rparr>
         | Some user \<Rightarrow>
             if \<not> u_isActive user then
               \<lparr>store = s, response = json_error 401 ''Account is inactive'',
                logs = [Log_warn ''Login failed: user account is inactive'']\<rparr>
             else if \<not> bcrypt_compare E password' (u_password user) then
               \<lparr>store = s, response = json_error 401 ''Invalid email or password'',
                logs = [Log_warn ''Login failed: invalid password'']\<rparr>
             else
              (let safeUser = omit_password user
               in case generateAccessToken E safeUser now of
                    Inl err \<Rightarrow> caught s ''Failed to login user'' ''Failed to login'' []
                  | Inr accessToken \<Rightarrow>
              (case generateRefreshToken E safeUser now of
                    Inl err \<Rightarrow> caught s ''Failed to login user'' ''Failed to login'' []
                  | Inr refreshToken \<Rightarrow>
              (case getTokenExpirationTime (JWT_REFRESH_EXPIRES_IN E) now of
                    Inl err \<Rightarrow> caught s ''Failed to login user'' ''Failed to login'' []
                  | Inr expiresAt \<Rightarrow>
              (case insert_refreshToken s (u_id user) refreshToken expiresAt now of
                    Inl err \<Rightarrow> caught s ''Failed to login user'' ''Failed to login'' []
                  | Inr s1 \<Rightarrow>
                      \<lparr>store = s1,
                       response = json_data 200 (AuthResponse safeUser accessToken refreshToken)
                                    ''Logged in successfully'',
                       logs = [Log_info ''User logged in successfully'']\<rparr>)))))"

text \<open>\<^verbatim>\<open>db.delete(refreshTokens).where(eq(refreshTokens.id, id))\<close>\<close>

definition delete_refreshToken_by_id :: "db \<Rightarrow> nat \<Rightarrow> db" where
  "delete_refreshToken_by_id s i =
     s\<lparr>refreshTokens := filter (\<lambda>r. rt_id r \<noteq> i) (refreshTokens s)\<rparr>"

text \<open>\<^verbatim>\<open>db.delete(refreshTokens).where(eq(refreshTokens.token, token))\<close>\<close>

definition delete_refreshToken_by_token :: "db \<Rightarrow> string \<Rightarrow> db" where
  "delete_refreshToken_by_token s token =
     s\<lparr>refreshTokens := filter (\<lambda>r. rt_token r \<noteq> token) (refreshTokens s)\<rparr>"

definition refreshToken :: "environment \<Rightarrow> db \<Rightarrow> RefreshTokenInput \<Rightarrow> time \<Rightarrow> outcome" where
  "refreshToken E s input now =
     (let token = refreshToken_of input
      in case verifyRefreshToken E token now of
           (None, l) \<Rightarrow>
             \<lparr>store = s, response = json_error 403 ''Invalid refresh token'', logs = l\<rparr>
         | (Some payload, l) \<Rightarrow>
     (case find (\<lambda>r. rt_token r = token) (refreshTokens s) of
           None \<Rightarrow>
             \<lparr>store = s, response = json_error 403 ''Invalid refresh token'',
              logs = l @ [Log_warn ''Refresh token not found in database'']\<rparr>
         | Some storedToken \<Rightarrow>
      if now > rt_expiresAt storedToken then
        \<lparr>store = delete_refreshToken_by_id s (rt_id storedToken),
         response = json_error 403 ''Refresh token expired'', logs = l\<rparr>
      else
     (case find (\<lambda>u. u_id u = userId payload) (users s) of
           None \<Rightarrow> \<lparr>store = s, response = json_error 403 ''User not found'', logs = l\<rparr>
         | Some user \<Rightarrow>
     (let safeUser = omit_password user
      in case generateAccessToken E safeUser now of
           Inl err \<Rightarrow> caught s ''Failed to refresh token'' ''Failed to refresh token'' l
         | Inr accessToken \<Rightarrow>
     (case generateRefreshToken E safeUser now of
           Inl err \<Rightarrow> caught s ''Failed to refresh token'' ''Failed to refresh token'' l
         | Inr newRefreshToken \<Rightarrow>
     (let s1 = delete_refreshToken_by_id s (rt_id storedToken)
      in case getTokenExpirationTime (JWT_REFRESH_EXPIRES_IN E) now of
           Inl err \<Rightarrow> caught s1 ''Failed to refresh token'' ''Failed to refresh token'' l
         | Inr expiresAt \<Rightarrow>
     (case insert_refreshToken s1 (u_id user) newRefreshToken expiresAt now of
           Inl err \<Rightarrow> caught s1 ''Failed to refresh token'' ''Failed to refresh token'' l
         | Inr s2 \<Rightarrow>
             \<lparr>store = s2,
              response = json_data 200 (TokenPair accessToken newRefreshToken)
                           ''Tokens refreshed successfully'',
              logs = l @ [Log_info ''Tokens refreshed successfully'']\<rparr>)))))))"

text \<open>
  \<^verbatim>\<open>logout\<close> reads \<^verbatim>\<open>req.user\<close> only for the line it logs; the argument \<open>user\<close> is that
  member of the request, \<open>None\<close> when no middleware has set it.
\<close>

definition logout :: "db \<Rightarrow> RefreshTokenInput \<Rightarrow> JwtPayload option \<Rightarrow> outcome" where
  "logout s input user =
     (let token = refreshToken_of input
      in \<lparr>store = delete_refreshToken_by_token s token,
          response = json_data 200 Null ''Logged out successfully'',
          logs = [Log_info ''User logged out successfully'']\<rparr>)"

section \<open>routes/authRoutes.ts\<close>

text \<open>
  A request: its \<^verbatim>\<open>Authorization\<close> header and its body. The public routes run
  \<^verbatim>\<open>validateBody\<close> and then the handler; none of them runs \<^verbatim>\<open>authenticateToken\<close>, so the
  handler finds no \<^verbatim>\<open>req.user\<close>.
\<close>

record 'b request =
  authorization :: "string option"
  body :: 'b

definition stopped :: "db \<Rightarrow> ApiResponse \<times> log_entry list \<Rightarrow> outcome" where
  "stopped s r = \<lparr>store = s, response = fst r, logs = snd r\<rparr>"

definition register_route :: "environment \<Rightarrow> db \<Rightarrow> register_body request \<Rightarrow> time \<Rightarrow> outcome" where
  "register_route E s req now =
     (case validateBody (registerSchema E) (body req) of
        Inl r \<Rightarrow> stopped s r
      | Inr input \<Rightarrow> register E s input now)"

definition login_route :: "environment \<Rightarrow> db \<Rightarrow> login_body request \<Rightarrow> time \<Rightarrow> outcome" where
  "login_route E s req now =
     (case validateBody (loginSchema E) (body req) of
        Inl r \<Rightarrow> stopped s r
      | Inr input \<Rightarrow> login E s input now)"

definition refresh_route :: "environment \<Rightarrow> db \<Rightarrow> refreshToken_body request \<Rightarrow> time \<Rightarrow> outcome" where
  "refresh_route E s req now =
     (case validateBody refreshTokenSchema (body req) of
        Inl r \<Rightarrow> stopped s r
      | Inr input \<Rightarrow> refreshToken E s input now)"

definition logout_route :: "db \<Rightarrow> refreshToken_body request \<Rightarrow> outcome" where
  "logout_route s req =
     (case validateBody refreshTokenSchema (body req) of
        Inl r \<Rightarrow> stopped s r
      | Inr input \<Rightarrow> logout s input None)"

section \<open>The constraints of the store\<close>

text \<open>
  What the constraints of the two tables and their id sequences keep true of a store:
  emails, tokens and ids are unique and every id is below its sequence.
\<close>

definition store_ok :: "db \<Rightarrow> bool" where
  "store_ok s \<longleftrightarrow>
     distinct (map u_email (users s)) \<and> distinct (map u_id (users s)) \<and>
     (\<forall>u\<in>set (users s). u_id u < users_id_seq s) \<and>
     distinct (map rt_token (refreshTokens s)) \<and> distinct (map rt_id (refreshTokens s)) \<and>
     (\<forall>r\<in>set (refreshTokens s). rt_id r < refreshTokens_id_seq s)"

text \<open>The emails of the store are in the form the schemas produce: lower case, trimmed.\<close>

definition emails_normal :: "db \<Rightarrow> bool" where
  "emails_normal s \<longleftrightarrow> (\<forall>u\<in>set (users s). trim (toLowerCase (u_email u)) = u_email u)"

text \<open>A call of one of the four routes, and a run of calls, each at its own instant.\<close>

datatype call =
    Register "register_body request"
  | Login "login_body request"
  | Refresh "refreshToken_body request"
  | Logout "refreshToken_body request"

definition serve :: "environment \<Rightarrow> db \<Rightarrow> call \<Rightarrow> time \<Rightarrow> outcome" where
  "serve E s c now =
     (case c of
        Register req \<Rightarrow> register_route E s req now
      | Login req \<Rightarrow> login_route E s req now
      | Refresh req \<Rightarrow> refresh_route E s req now
      | Logout req \<Rightarrow> logout_route s req)"

fun serve_all :: "environment \<Rightarrow> db \<Rightarrow> (call \<times> time) list \<Rightarrow> db" where
  "serve_all E s [] = s"
| "serve_all E s ((c, now) # cs) = serve_all E (store (serve E s c now)) cs"

section \<open>What is asked of the token library\<close>


section \<open>A reference environment\<close>

text \<open>
  An instance of the environment on which the model runs: a symbolic token codec in the
  shape of the JWT library (a token carries the payload, the second it was issued, the
  second it expires and the secret it was signed with; verifying checks the secret, then
  the expiry), a tagging password hash and a simple email test. The theorems below hold
  for every environment; this one shows their hypotheses can be met and gives the
  concrete runs.
\<close>

definition digit_char :: "int \<Rightarrow> char" where
  "digit_char d = char_of (48 + d)"

function show_dec :: "int \<Rightarrow> string" where
  "show_dec i = (if i < 10 then [digit_char i] else show_dec (i div 10) @ [digit_char (i mod 10)])"
  by pat_completeness auto
termination
  by (relation "measure nat") auto

declare show_dec.simps [simp del]

definition show_int :: "int \<Rightarrow> string" where
  "show_int i = (if i < 0 then CHR ''-'' # show_dec (- i) else show_dec i)"

definition read_int :: "string \<Rightarrow> int" where
  "read_int v = (case v of [] \<Rightarrow> 0 | c # cs \<Rightarrow> if c = CHR ''-'' then - parseInt cs else parseInt v)"

text \<open>A field is written as its length, a colon and its characters.\<close>

definition put_field :: "string \<Rightarrow> string" where
  "put_field f = show_dec (int (length f)) @ CHR '':'' # f"

definition take_field :: "string \<Rightarrow> (string \<times> string) option" where
  "take_field t =
     (let n = takeWhile is_digit t
      in case dropWhile is_digit t of
           [] \<Rightarrow> None
         | c # rest \<Rightarrow>
             if n = [] \<or> c \<noteq> CHR '':'' \<or> length rest < nat (parseInt n) then None
             else Some (take (nat (parseInt n)) rest, drop (nat (parseInt n)) rest))"

fun take_fields :: "nat \<Rightarrow> string \<Rightarrow> (string list \<times> string) option" where
  "take_fields 0 t = Some ([], t)"
| "take_fields (Suc k) t =
     (case take_field t of
        None \<Rightarrow> None
      | Some (f, rest) \<Rightarrow>
          (case take_fields k rest of
             None \<Rightarrow> None
           | Some (fs, rest') \<Rightarrow> Some (f # fs, rest')))"

definition ref_sign :: "JwtPayload \<Rightarrow> string \<Rightarrow> string \<Rightarrow> time \<Rightarrow> thrown + string" where
  "ref_sign payload secret expiresIn now =
     (case match_expiresIn expiresIn of
        None \<Rightarrow> Inl (Error ''expiresIn should be a number of seconds or a timespan'')
      | Some (amount, unit) \<Rightarrow>
          (case milliseconds unit of
             None \<Rightarrow> Inl (Error ''expiresIn should be a number of seconds or a timespan'')
           | Some multiplier \<Rightarrow>
               let timestamp = now div 1000;
                   expiry = timestamp + parseInt amount * multiplier div 1000
               in Inr (concat (map put_field
                    [show_dec (int (userId payload)), email payload, role payload,
                     show_int timestamp, show_int expiry, secret]))))"

definition ref_verify :: "string \<Rightarrow> string \<Rightarrow> time \<Rightarrow> thrown + JwtPayload" where
  "ref_verify token secret now =
     (case take_fields 6 token of
        Some ([uid, mail, rl, issued, expiry, signed_with], []) \<Rightarrow>
          if signed_with \<noteq> secret then Inl (Error ''invalid signature'')
          else if now div 1000 \<ge> read_int expiry then Inl (Error ''jwt expired'')
          else Inr \<lparr>userId = nat (parseInt uid), email = mail, role = rl,
                    iat = Some (read_int issued), exp = Some (read_int expiry)\<rparr>
      | _ \<Rightarrow> Inl (Error ''jwt malformed''))"

definition ref_hash :: "string \<Rightarrow> nat \<Rightarrow> string" where
  "ref_hash password' rounds = ''$'' @ show_dec (int rounds) @ ''$'' @ password'"

definition ref_compare :: "string \<Rightarrow> string \<Rightarrow> bool" where
  "ref_compare password' hash \<longleftrightarrow>
     (case dropWhile is_digit (drop 1 hash) of
        [] \<Rightarrow> False
      | c # stored \<Rightarrow> take 1 hash = ''$'' \<and> c = CHR ''$'' \<and> stored = password')"

definition ref_email :: "string \<Rightarrow> bool" where
  "ref_email v \<longleftrightarrow>
     (let name' = takeWhile (\<lambda>c. c \<noteq> CHR ''@'') v;
          host = drop 1 (dropWhile (\<lambda>c. c \<noteq> CHR ''@'') v)
      in name' \<noteq> [] \<and> host \<noteq> [] \<and> CHR ''@'' \<notin> set host \<and> \<not> list_ex is_space v)"

definition ref_env :: environment where
  "ref_env =
     \<lparr>env_JWT_SECRET = None, env_JWT_EXPIRES_IN = None,
      env_JWT_REFRESH_SECRET = None, env_JWT_REFRESH_EXPIRES_IN = None,
      jwt_sign = ref_sign, jwt_verify = ref_verify,
      bcrypt_hash = ref_hash, bcrypt_compare = ref_compare, zod_email = ref_email\<rparr>"

definition empty_db :: db where
  "empty_db = \<lparr>users = [], refreshTokens = [], users_id_seq = 1, refreshTokens_id_seq = 1\<rparr>"

section \<open>The specification's wording, for comparison with the code\<close>

text \<open>
  A duration expression in the specification's words: an integer written in decimal
  digits, then one unit letter among s, m, h and d.
\<close>

definition spec_duration_form :: "string \<Rightarrow> bool" where
  "spec_duration_form v \<longleftrightarrow>
     (case rev v of
        [] \<Rightarrow> False
      | unit # digits \<Rightarrow> digits \<noteq> [] \<and> list_all is_digit digits \<and> unit \<in> set ''smhd'')"

definition spec_unit_ms :: "char \<Rightarrow> int" where
  "spec_unit_ms unit =
     (let second = 1000; minute = 60 * second; hour = 60 * minute; day = 24 * hour
      in if unit = CHR ''s'' then second
         else if unit = CHR ''m'' then minute
         else if unit = CHR ''h'' then hour
         else day)"

text \<open>
  \<open>computeExpiry\<close> at the instant \<open>T\<close>: \<open>T\<close> plus that many units when the expression has
  the form above, \<open>InvalidDurationFormat\<close> otherwise. An instant outside the range of a
  \<^verbatim>\<open>Date\<close> comes back as the Invalid Date.
\<close>

definition spec_computeExpiry :: "string \<Rightarrow> time \<Rightarrow> thrown + date" where
  "spec_computeExpiry v T =
     (if spec_duration_form v then
        (let t = T + parseInt (butlast v) * spec_unit_ms (last v)
         in if \<bar>t\<bar> \<le> 8640000000000000 then Inr (Date t) else Inr Invalid_Date)
      else Inl (Error ''Invalid expires in format''))"

text \<open>
  A first request: John registers, at the instant 1700000000000, on the empty store.
  \<open>ref_db\<close> is the store after it.
\<close>

definition john_registers :: "register_body request" where
  "john_registers =
     \<lparr>authorization = None,
      body = \<lparr>rb_name = Some ''John'', rb_email = Some ''JOHN@X.com'',
              rb_password = Some ''Abc123xx''\<rparr>\<rparr>"

definition john :: user_row where
  "john =
     \<lparr>u_id = 1, u_name = ''John'', u_email = ''john@x.com'', u_password = ''$12$Abc123xx'',
      u_role = ''user'', u_isActive = True, u_createdAt = 1700000000000,
      u_updatedAt = 1700000000000\<rparr>"

definition ref_db :: db where
  "ref_db = store (register_route ref_env empty_db john_registers 1700000000000)"

definition john_access_token :: string where
  "john_access_token =
     ''1:110:john@x.com4:user10:170000000010:170000090025:your-super-secret-jwt-key''"

definition john_refresh_token :: string where
  "john_refresh_token =
     ''1:110:john@x.com4:user10:170000000010:170060480029:your-super-secret-refresh-key''"

text \<open>A second registration under John's address, in another letter case.\<close>

definition john_registers_again :: "register_body request" where
  "john_registers_again =
     \<lparr>authorization = None,
      body = \<lparr>rb_name = Some ''Johnny'', rb_email = Some ''John@X.Com'',
              rb_password = Some ''Xyz789ab''\<rparr>\<rparr>"



text \<open>The same store with John's account deactivated.\<close>

definition ref_db_inactive :: db where
  "ref_db_inactive = ref_db\<lparr>users := map (\<lambda>u. u\<lparr>u_isActive := False\<rparr>) (users ref_db)\<rparr>"


section \<open>Duration expressions\<close>

lemma not_digit_unit: "unit \<in> set ''smhd'' \<Longrightarrow> \<not> is_digit unit"
  by (auto simp: is_digit_def)

lemma match_expiresIn_form:
  assumes "amount \<noteq> []" "list_all is_digit amount" "unit \<in> set ''smhd''"
  shows "match_expiresIn (amount @ [unit]) = Some (amount, unit)"
proof -
  have nd: "\<not> is_digit unit" using assms(3) by (rule not_digit_unit)
  have all: "\<forall>c\<in>set amount. is_digit c" using assms(2) by (simp add: list_all_iff)
  have t: "takeWhile is_digit (amount @ [unit]) = amount"
    using all nd by (simp add: takeWhile_append2)
  have d: "dropWhile is_digit (amount @ [unit]) = [unit]"
    using all nd by (simp add: dropWhile_append2)
  show ?thesis
    unfolding match_expiresIn_def using assms(1,3) by (simp add: t d Let_def)
qed

lemma match_expiresIn_Some:
  assumes "match_expiresIn v = Some (amount, unit)"
  shows "v = amount @ [unit] \<and> amount \<noteq> [] \<and> list_all is_digit amount \<and> unit \<in> set ''smhd''"
proof -
  from assms obtain u where d: "dropWhile is_digit v = [u]"
    and a: "takeWhile is_digit v \<noteq> []" and u: "u \<in> set ''smhd''"
    and eq: "amount = takeWhile is_digit v" "unit = u"
    unfolding match_expiresIn_def Let_def
    by (auto split: list.splits if_splits)
  have "v = takeWhile is_digit v @ dropWhile is_digit v" by simp
  then have "v = amount @ [unit]" using d eq by simp
  moreover have "list_all is_digit amount"
    unfolding eq list_all_iff by (auto dest: set_takeWhileD)
  ultimately show ?thesis using a u eq by simp
qed

lemma spec_duration_form_iff:
  "spec_duration_form v \<longleftrightarrow>
     (\<exists>amount unit. v = amount @ [unit] \<and> amount \<noteq> [] \<and> list_all is_digit amount \<and>
        unit \<in> set ''smhd'')"
proof
  assume "spec_duration_form v"
  then obtain unit digits where r: "rev v = unit # digits"
    and d: "digits \<noteq> []" "list_all is_digit digits" "unit \<in> set ''smhd''"
    unfolding spec_duration_form_def by (auto split: list.splits)
  from r have "v = rev digits @ [unit]" by (metis rev.simps(2) rev_rev_ident)
  then show "\<exists>amount unit. v = amount @ [unit] \<and> amount \<noteq> [] \<and> list_all is_digit amount \<and>
      unit \<in> set ''smhd''"
    using d by (intro exI[of _ "rev digits"] exI[of _ unit]) (simp add: list_all_iff)
next
  assume "\<exists>amount unit. v = amount @ [unit] \<and> amount \<noteq> [] \<and> list_all is_digit amount \<and>
      unit \<in> set ''smhd''"
  then show "spec_duration_form v"
    unfolding spec_duration_form_def by (auto simp: list_all_iff)
qed

lemma milliseconds_unit:
  "unit \<in> set ''smhd'' \<Longrightarrow> milliseconds unit = Some (spec_unit_ms unit) \<and> spec_unit_ms unit \<noteq> 0"
  by (auto simp: milliseconds_def spec_unit_ms_def)

text \<open>
  C5, as amended. \<open>getTokenExpirationTime\<close>, evaluated at the instant \<open>T\<close>, is the
  specification's \<open>computeExpiry\<close>: on \<open><integer><unit>\<close> with a unit among s, m, h, d it
  returns \<open>T\<close> plus that many seconds, minutes, hours or days, provided that instant is
  within the range of a \<^verbatim>\<open>Date\<close> (and the Invalid Date, without an exception, when
  it is not); on every other string it throws \<open>Invalid expires in format\<close>.
\<close>

theorem getTokenExpirationTime_refines:
  "getTokenExpirationTime v T = spec_computeExpiry v T"
proof (cases "spec_duration_form v")
  case True
  then obtain amount unit where v: "v = amount @ [unit]"
    and a: "amount \<noteq> []" "list_all is_digit amount"
    and u: "unit \<in> set ''smhd''"
    unfolding spec_duration_form_iff by blast
  have m: "match_expiresIn (amount @ [unit]) = Some (amount, unit)"
    using a u by (rule match_expiresIn_form)
  show ?thesis
    using True milliseconds_unit[OF u]
    by (simp add: getTokenExpirationTime_def spec_computeExpiry_def m new_Date_def v Let_def)
next
  case False
  have "match_expiresIn v = None"
  proof (cases "match_expiresIn v")
    case (Some p)
    obtain amount unit where "p = (amount, unit)" by (cases p)
    with Some have "spec_duration_form v"
      unfolding spec_duration_form_iff using match_expiresIn_Some by blast
    with False show ?thesis by simp
  qed simp
  then show ?thesis
    using False by (simp add: getTokenExpirationTime_def spec_computeExpiry_def)
qed

text \<open>
  C5, the scenario of the specification: \<open>15m\<close> is fifteen minutes after \<open>T\<close>; \<open>15\<close> and
  \<open>15x\<close> are refused.
\<close>

theorem getTokenExpirationTime_scenario:
  "getTokenExpirationTime ''15m'' 1700000000000 = Inr (Date (1700000000000 + 15 * 60 * 1000)) \<and>
   getTokenExpirationTime ''15'' 1700000000000 = Inl (Error ''Invalid expires in format'') \<and>
   getTokenExpirationTime ''15x'' 1700000000000 = Inl (Error ''Invalid expires in format'')"
  using getTokenExpirationTime_refines[of "''15m''" 1700000000000]
    getTokenExpirationTime_refines[of "''15''" 1700000000000]
    getTokenExpirationTime_refines[of "''15x''" 1700000000000]
  by (simp add: spec_computeExpiry_def spec_duration_form_def is_digit_def spec_unit_ms_def
      parseInt_def digit_val_def)

text \<open>
  C5 as first stated fails: the expression \<open>9999999999999999d\<close> has the form
  \<open><integer><unit>\<close>, and the result is the Invalid Date, not \<open>T\<close> plus that many days.
\<close>

theorem getTokenExpirationTime_out_of_range:
  "getTokenExpirationTime ''9999999999999999d'' 1700000000000 = Inr Invalid_Date \<and>
   getTokenExpirationTime ''9999999999999999d'' 1700000000000 \<noteq>
     Inr (Date (1700000000000 + 9999999999999999 * (24 * 60 * 60 * 1000)))"
  by (simp add: getTokenExpirationTime_def match_expiresIn_def is_digit_def milliseconds_def
      parseInt_def digit_val_def new_Date_def)
section \<open>Looking a row up\<close>

lemma find_unique:
  "distinct (map f xs) \<Longrightarrow> x \<in> set xs \<Longrightarrow> find (\<lambda>y. f y = f x) xs = Some x"
  by (induction xs) (auto simp: rev_image_eqI)

lemma find_absent: "\<forall>y\<in>set xs. f y \<noteq> k \<Longrightarrow> find (\<lambda>y. f y = k) xs = None"
  by (simp add: find_None_iff)

section \<open>The reference run\<close>

lemma ref_db_value:
  "ref_db =
     \<lparr>users = [john],
      refreshTokens =
        [\<lparr>rt_id = 1, rt_userId = 1, rt_token = john_refresh_token,
          rt_expiresAt = 1700604800000, rt_createdAt = 1700000000000\<rparr>],
      users_id_seq = 2, refreshTokens_id_seq = 2\<rparr>"
  by code_simp

section \<open>The verifiers\<close>

text \<open>
  C7. For every input string, whatever the library does with it, \<open>verifyAccessToken\<close> and
  \<open>verifyRefreshToken\<close> return: the decoded payload when the library returns one, and
  \<^verbatim>\<open>null\<close> with one logged warning when the library throws. Neither has an outcome in
  which the exception reaches the caller.
\<close>

theorem verify_returns_payload_or_null:
  "(\<forall>payload. jwt_verify E token (JWT_SECRET E) now = Inr payload \<longrightarrow>
      verifyAccessToken E token now = (Some payload, [])) \<and>
   (\<forall>err. jwt_verify E token (JWT_SECRET E) now = Inl err \<longrightarrow>
      verifyAccessToken E token now = (None, [Log_warn ''Access token verification failed''])) \<and>
   (\<forall>payload. jwt_verify E token (JWT_REFRESH_SECRET E) now = Inr payload \<longrightarrow>
      verifyRefreshToken E token now = (Some payload, [])) \<and>
   (\<forall>err. jwt_verify E token (JWT_REFRESH_SECRET E) now = Inl err \<longrightarrow>
      verifyRefreshToken E token now = (None, [Log_warn ''Refresh token verification failed'']))"
  by (simp add: verifyAccessToken_def verifyRefreshToken_def)

text \<open>
  C7 on the reference codec: a token just issued, a malformed string, an expired token
  and a token signed with the other secret.
\<close>

theorem verify_returns_payload_or_null_witness:
  "verifyAccessToken ref_env john_access_token 1700000001000 =
     (Some \<lparr>userId = 1, email = ''john@x.com'', role = ''user'', iat = Some 1700000000,
            exp = Some 1700000900\<rparr>, []) \<and>
   verifyAccessToken ref_env ''not-a-token'' 1700000001000 =
     (None, [Log_warn ''Access token verification failed'']) \<and>
   verifyRefreshToken ref_env john_refresh_token 1700604800000 =
     (None, [Log_warn ''Refresh token verification failed'']) \<and>
   verifyRefreshToken ref_env john_access_token 1700000001000 =
     (None, [Log_warn ''Refresh token verification failed''])"
proof -
  have issued: "jwt_verify ref_env john_access_token (JWT_SECRET ref_env) 1700000001000 =
      Inr \<lparr>userId = 1, email = ''john@x.com'', role = ''user'', iat = Some 1700000000,
           exp = Some 1700000900\<rparr>"
    by code_simp
  have malformed: "jwt_verify ref_env ''not-a-token'' (JWT_SECRET ref_env) 1700000001000 =
      Inl (Error ''jwt malformed'')"
    by code_simp
  have expired: "jwt_verify ref_env john_refresh_token (JWT_REFRESH_SECRET ref_env) 1700604800000 =
      Inl (Error ''jwt expired'')"
    by code_simp
  have other_secret:
    "jwt_verify ref_env john_access_token (JWT_REFRESH_SECRET ref_env) 1700000001000 =
      Inl (Error ''invalid signature'')"
    by code_simp
  show ?thesis
    using verify_returns_payload_or_null[of ref_env john_access_token 1700000001000]
      verify_returns_payload_or_null[of ref_env "''not-a-token''" 1700000001000]
      verify_returns_payload_or_null[of ref_env john_refresh_token 1700604800000]
      issued malformed expired other_secret
    by simp
qed

section \<open>Login\<close>

text \<open>
  C4. A login with an email that matches no stored user and a login with the email of
  an active user and a password that the hash comparison rejects get the same response:
  status 401 and the message \<open>Invalid email or password\<close>. Only the logged lines differ.
\<close>

theorem login_missing_user_and_wrong_password_alike:
  assumes "\<forall>u\<in>set (users s). u_email u \<noteq> li_email a"
    and "user \<in> set (users s')" "u_email user = li_email b"
    and "distinct (map u_email (users s'))"
    and "u_isActive user" "\<not> bcrypt_compare E (li_password b) (u_password user)"
  shows "response (login E s a now) = response (login E s' b now') \<and>
         status (response (login E s a now)) = 401 \<and>
         error (response (login E s a now)) = Some ''Invalid email or password'' \<and>
         logs (login E s a now) = [Log_warn ''Login failed: user not found''] \<and>
         logs (login E s' b now') = [Log_warn ''Login failed: invalid password'']"
proof -
  have none: "find (\<lambda>u. u_email u = li_email a) (users s) = None"
    using assms(1) by (rule find_absent)
  have some: "find (\<lambda>u. u_email u = li_email b) (users s') = Some user"
    using find_unique[OF assms(4) assms(2)] assms(3) by simp
  have l: "login E s a now =
      \<lparr>store = s, response = json_error 401 ''Invalid email or password'',
       logs = [Log_warn ''Login failed: user not found'']\<rparr>"
    by (simp add: login_def none)
  have r: "login E s' b now' =
      \<lparr>store = s', response = json_error 401 ''Invalid email or password'',
       logs = [Log_warn ''Login failed: invalid password'']\<rparr>"
    using assms(5,6) by (simp add: login_def some)
  show ?thesis by (simp add: l r json_error_def)
qed

text \<open>C4 on the reference store: an unknown address, and John with a wrong password.\<close>

theorem login_missing_user_and_wrong_password_alike_witness:
  "''nobody@x.com'' \<notin> set (map u_email (users ref_db)) \<and>
   john \<in> set (users ref_db) \<and> u_email john = ''john@x.com'' \<and>
   distinct (map u_email (users ref_db)) \<and> u_isActive john \<and>
   \<not> bcrypt_compare ref_env ''Wrong123'' (u_password john) \<and>
   response (login ref_env ref_db \<lparr>li_email = ''nobody@x.com'', li_password = ''Abc123xx''\<rparr>
      1700000005000) =
   response (login ref_env ref_db \<lparr>li_email = ''john@x.com'', li_password = ''Wrong123''\<rparr>
      1700000005000) \<and>
   error (response (login ref_env ref_db
      \<lparr>li_email = ''nobody@x.com'', li_password = ''Abc123xx''\<rparr> 1700000005000)) =
     Some ''Invalid email or password''"
proof -
  have h1: "\<forall>u\<in>set (users ref_db). u_email u \<noteq> ''nobody@x.com''"
    by (simp add: ref_db_value john_def)
  have h1': "''nobody@x.com'' \<notin> set (map u_email (users ref_db))"
    by (simp add: ref_db_value john_def)
  have h2: "john \<in> set (users ref_db)" by (simp add: ref_db_value)
  have h3: "u_email john = ''john@x.com''" by (simp add: john_def)
  have h4: "distinct (map u_email (users ref_db))" by (simp add: ref_db_value)
  have h5: "u_isActive john" by (simp add: john_def)
  have h6: "\<not> bcrypt_compare ref_env ''Wrong123'' (u_password john)" by code_simp
  show ?thesis
    using login_missing_user_and_wrong_password_alike[of ref_db
        "\<lparr>li_email = ''nobody@x.com'', li_password = ''Abc123xx''\<rparr>" john ref_db
        "\<lparr>li_email = ''john@x.com'', li_password = ''Wrong123''\<rparr>" ref_env
        1700000005000 1700000005000]
      h1 h1' h2 h3 h4 h5 h6
    by auto
qed

text \<open>
  C2, as amended. A login against an existing user whose \<open>isActive\<close> flag is false is
  logged with its own reason and answered with status 401, the status of the generic
  failure; the message of the response is \<open>Account is inactive\<close>. The store is unchanged.
\<close>

theorem login_inactive_account:
  assumes "user \<in> set (users s)" "u_email user = li_email input"
    and "distinct (map u_email (users s))"
    and "\<not> u_isActive user"
  shows "status (response (login E s input now)) = 401 \<and>
         \<not> success (response (login E s input now)) \<and>
         error (response (login E s input now)) = Some ''Account is inactive'' \<and>
         logs (login E s input now) = [Log_warn ''Login failed: user account is inactive''] \<and>
         store (login E s input now) = s"
proof -
  have some: "find (\<lambda>u. u_email u = li_email input) (users s) = Some user"
    using find_unique[OF assms(3) assms(1)] assms(2) by simp
  show ?thesis using assms(4) by (simp add: login_def some json_error_def)
qed

text \<open>C2, as amended, on the reference store with John's account deactivated.\<close>

theorem login_inactive_account_witness:
  "john\<lparr>u_isActive := False\<rparr> \<in> set (users ref_db_inactive) \<and>
   u_email (john\<lparr>u_isActive := False\<rparr>) = ''john@x.com'' \<and>
   distinct (map u_email (users ref_db_inactive)) \<and>
   \<not> u_isActive (john\<lparr>u_isActive := False\<rparr>) \<and>
   status (response (login ref_env ref_db_inactive
      \<lparr>li_email = ''john@x.com'', li_password = ''Abc123xx''\<rparr> 1700000005000)) = 401 \<and>
   logs (login ref_env ref_db_inactive
      \<lparr>li_email = ''john@x.com'', li_password = ''Abc123xx''\<rparr> 1700000005000) =
     [Log_warn ''Login failed: user account is inactive'']"
proof -
  have h1: "john\<lparr>u_isActive := False\<rparr> \<in> set (users ref_db_inactive)"
    by (simp add: ref_db_inactive_def ref_db_value)
  have h2: "u_email (john\<lparr>u_isActive := False\<rparr>) = ''john@x.com''" by (simp add: john_def)
  have h3: "distinct (map u_email (users ref_db_inactive))"
    by (simp add: ref_db_inactive_def ref_db_value)
  have h4: "\<not> u_isActive (john\<lparr>u_isActive := False\<rparr>)" by simp
  show ?thesis
    using login_inactive_account[of "john\<lparr>u_isActive := False\<rparr>" ref_db_inactive
        "\<lparr>li_email = ''john@x.com'', li_password = ''Abc123xx''\<rparr>" ref_env 1700000005000]
      h1 h2 h3 h4
    by simp
qed

text \<open>
  C2 as first stated fails: with the right password on a deactivated account the caller
  reads \<open>Account is inactive\<close>, and with an unknown address \<open>Invalid email or password\<close>.
\<close>

theorem login_inactive_account_leaks:
  "error (response (login ref_env ref_db_inactive
      \<lparr>li_email = ''john@x.com'', li_password = ''Abc123xx''\<rparr> 1700000005000)) =
     Some ''Account is inactive'' \<and>
   error (response (login ref_env ref_db_inactive
      \<lparr>li_email = ''nobody@x.com'', li_password = ''Abc123xx''\<rparr> 1700000005000)) =
     Some ''Invalid email or password'' \<and>
   response (login ref_env ref_db_inactive
      \<lparr>li_email = ''john@x.com'', li_password = ''Abc123xx''\<rparr> 1700000005000) \<noteq>
   response (login ref_env ref_db_inactive
      \<lparr>li_email = ''nobody@x.com'', li_password = ''Abc123xx''\<rparr> 1700000005000)"
  by code_simp

section \<open>Logout\<close>

text \<open>
  C8. \<open>logout\<close> answers with success whether or not a record of the Ledger matches the
  token; a second call with the same token answers the same and leaves the store as the
  first call left it. When no record matches, the store is not changed at all.
\<close>

theorem logout_idempotent:
  "status (response (logout s t u)) = 200 \<and>
   success (response (logout s t u)) \<and>
   response (logout (store (logout s t u)) t u') = response (logout s t u) \<and>
   store (logout (store (logout s t u)) t u') = store (logout s t u) \<and>
   ((\<forall>r\<in>set (refreshTokens s). rt_token r \<noteq> refreshToken_of t) \<longrightarrow> store (logout s t u) = s)"
  by (simp add: logout_def json_data_def delete_refreshToken_by_token_def Let_def)

text \<open>C8 on the reference store: a token that no record holds, and John's token twice.\<close>

theorem logout_idempotent_witness:
  "''unknown'' \<notin> set (map rt_token (refreshTokens ref_db)) \<and>
   store (logout ref_db \<lparr>refreshToken_of = ''unknown''\<rparr> None) = ref_db \<and>
   status (response (logout ref_db \<lparr>refreshToken_of = ''unknown''\<rparr> None)) = 200 \<and>
   refreshTokens (store (logout ref_db \<lparr>refreshToken_of = john_refresh_token\<rparr> None)) = [] \<and>
   store (logout (store (logout ref_db \<lparr>refreshToken_of = john_refresh_token\<rparr> None))
            \<lparr>refreshToken_of = john_refresh_token\<rparr> None) =
     store (logout ref_db \<lparr>refreshToken_of = john_refresh_token\<rparr> None)"
proof -
  have h: "\<forall>r\<in>set (refreshTokens ref_db). rt_token r \<noteq> ''unknown''"
    by (simp add: ref_db_value john_refresh_token_def)
  have h': "''unknown'' \<notin> set (map rt_token (refreshTokens ref_db))"
    by (simp add: ref_db_value john_refresh_token_def)
  have d: "refreshTokens (store (logout ref_db \<lparr>refreshToken_of = john_refresh_token\<rparr> None)) = []"
    by (simp add: logout_def delete_refreshToken_by_token_def ref_db_value)
  show ?thesis
    using logout_idempotent[of ref_db "\<lparr>refreshToken_of = ''unknown''\<rparr>" None None]
      logout_idempotent[of ref_db "\<lparr>refreshToken_of = john_refresh_token\<rparr>" None None] h h' d
    by simp
qed

text \<open>
  The logout route has no authentication step: on a body whose \<open>refreshToken\<close> is a
  non-empty string it runs \<open>logout\<close> with no identity, whatever the \<^verbatim>\<open>Authorization\<close>
  header; the body schema stops an empty or absent string with status 400.
\<close>

lemma logout_route_runs_logout:
  "t \<noteq> [] \<Longrightarrow>
     logout_route s \<lparr>authorization = header, body = \<lparr>tb_refreshToken = Some t\<rparr>\<rparr> =
       logout s \<lparr>refreshToken_of = t\<rparr> None"
  by (simp add: logout_route_def validateBody_def refreshTokenSchema_def z_string_def z_min_def)

lemma logout_route_empty:
  "status (response (logout_route s \<lparr>authorization = header, body = \<lparr>tb_refreshToken = Some []\<rparr>\<rparr>)) = 400 \<and>
   store (logout_route s \<lparr>authorization = header, body = \<lparr>tb_refreshToken = Some []\<rparr>\<rparr>) = s"
  by (simp add: logout_route_def validateBody_def refreshTokenSchema_def z_string_def z_min_def
      stopped_def)

text \<open>
  C10. \<open>logout\<close> verifies nothing and asks for no identity: for every string and every
  caller, with or without an identity, it removes the records of the Ledger whose token
  is that string, whoever owns them, touches nothing else and answers with success. No
  verifier and no secret occurs in it.
\<close>

theorem logout_checks_nothing:
  "status (response (logout s \<lparr>refreshToken_of = t\<rparr> caller)) = 200 \<and>
   success (response (logout s \<lparr>refreshToken_of = t\<rparr> caller)) \<and>
   refreshTokens (store (logout s \<lparr>refreshToken_of = t\<rparr> caller)) =
     filter (\<lambda>r. rt_token r \<noteq> t) (refreshTokens s) \<and>
   users (store (logout s \<lparr>refreshToken_of = t\<rparr> caller)) = users s"
  by (simp add: logout_def json_data_def delete_refreshToken_by_token_def Let_def)

text \<open>
  C10 on the reference store: John's refresh token, after it has expired, sent by
  another user and sent without credentials; the record, which belongs to John, is
  removed.
\<close>

theorem logout_checks_nothing_witness:
  "fst (verifyRefreshToken ref_env john_refresh_token 1700604800000) = None \<and>
   map rt_userId (refreshTokens ref_db) = [1] \<and>
   refreshTokens (store (logout ref_db \<lparr>refreshToken_of = john_refresh_token\<rparr>
      (Some \<lparr>userId = 2, email = ''mary@x.com'', role = ''user'', iat = None, exp = None\<rparr>))) = [] \<and>
   refreshTokens (store (logout_route ref_db
      \<lparr>authorization = None, body = \<lparr>tb_refreshToken = Some john_refresh_token\<rparr>\<rparr>)) = [] \<and>
   status (response (logout_route ref_db
      \<lparr>authorization = None, body = \<lparr>tb_refreshToken = Some john_refresh_token\<rparr>\<rparr>)) = 200"
proof -
  have h: "john_refresh_token \<noteq> []" by (simp add: john_refresh_token_def)
  have v: "fst (verifyRefreshToken ref_env john_refresh_token 1700604800000) = None"
    by code_simp
  have o: "map rt_userId (refreshTokens ref_db) = [1]" by (simp add: ref_db_value)
  have f: "filter (\<lambda>r. rt_token r \<noteq> john_refresh_token) (refreshTokens ref_db) = []"
    by (simp add: ref_db_value)
  show ?thesis
    using logout_checks_nothing[of ref_db john_refresh_token
        "Some \<lparr>userId = 2, email = ''mary@x.com'', role = ''user'', iat = None, exp = None\<rparr>"]
      logout_checks_nothing[of ref_db john_refresh_token None]
      logout_route_runs_logout[OF h, of ref_db None] v o f
    by simp
qed
section \<open>Refresh: the expiry of the stored record\<close>





section \<open>The reference codec round-trips\<close>












section \<open>Issue, then verify\<close>


section \<open>Refresh: rotation\<close>









section \<open>Registration\<close>

lemma validateBody_Inr:
  "fst (schema b) = [] \<Longrightarrow> validateBody schema b = Inr (snd (schema b))"
  by (cases "schema b") (simp add: validateBody_def)

lemma validateBody_Inl:
  "fst (schema b) \<noteq> [] \<Longrightarrow> \<exists>r. validateBody schema b = Inl r \<and> status (fst r) = 400"
  by (cases "schema b") (auto simp: validateBody_def split: list.splits)

lemma registerSchema_email:
  assumes "rb_email b = Some raw"
  shows "ri_email (snd (registerSchema E b)) = trim (toLowerCase raw)"
  using assms
  by (simp add: registerSchema_def z_string_def z_email_def z_max_def z_toLowerCase_def
      z_trim_def split: prod.splits option.splits)

lemma registerSchema_valid_email:
  assumes "fst (registerSchema E b) = []"
  shows "\<exists>raw. rb_email b = Some raw"
  using assms
  by (cases "rb_email b")
    (auto simp add: registerSchema_def z_string_def split: prod.splits option.splits)

lemma register_route_valid:
  assumes "fst (registerSchema E (body req)) = []"
  shows "register_route E s req now = register E s (snd (registerSchema E (body req))) now"
  using validateBody_Inr[of "registerSchema E" "body req"] assms
  by (simp add: register_route_def)

lemma register_route_invalid:
  assumes "fst (registerSchema E (body req)) \<noteq> []"
  shows "status (response (register_route E s req now)) = 400 \<and>
         error (response (register_route E s req now)) = Some ''Validation failed'' \<and>
         store (register_route E s req now) = s"
  using assms
  by (cases "registerSchema E (body req)")
    (auto simp: register_route_def validateBody_def stopped_def split: list.splits)

lemma register_duplicate:
  assumes "existing \<in> set (users s)" "u_email existing = ri_email input"
  shows "register E s input now =
     \<lparr>store = s, response = json_error 400 ''User with this email already exists'',
      logs = [Log_warn ''Registration failed: user already exists'']\<rparr>"
proof -
  have "find (\<lambda>u. u_email u = ri_email input) (users s) \<noteq> None"
    using assms by (auto simp: find_None_iff)
  then show ?thesis by (auto simp: register_def Let_def)
qed

lemma register_created:
  assumes "status (response (register E s input now)) = 201"
  shows "\<exists>user. users (store (register E s input now)) = users s @ [user] \<and>
           u_email user = ri_email input"
  using assms
  by (auto simp: register_def Let_def json_error_def json_data_def caught_def insert_user_def
      insert_refreshToken_def
      split: option.splits sum.splits prod.splits if_splits date.splits)

text \<open>
  C9. A registration that creates a user stores the email of the request in lower case
  (and trimmed), so \<open>JOHN@X.com\<close> is stored as \<open>john@x.com\<close>. A valid registration
  whose email equals, letter case aside, the email of an existing user (stored in that
  normal form) is answered 400 \<open>User with this email already exists\<close> and leaves the store
  as it was.
\<close>

theorem register_normalizes_and_rejects_duplicates:
  "(status (response (register_route E s req now)) = 201 \<longrightarrow>
      (\<exists>raw user. rb_email (body req) = Some raw \<and>
         users (store (register_route E s req now)) = users s @ [user] \<and>
         u_email user = trim (toLowerCase raw))) \<and>
   (fst (registerSchema E (body req)) = [] \<and> rb_email (body req) = Some raw' \<and>
    existing \<in> set (users s) \<and> u_email existing = trim (toLowerCase (u_email existing)) \<and>
    toLowerCase raw' = toLowerCase (u_email existing) \<longrightarrow>
      response (register_route E s req now) =
        json_error 400 ''User with this email already exists'' \<and>
      store (register_route E s req now) = s) \<and>
   trim (toLowerCase ''JOHN@X.com'') = ''john@x.com''"
proof (intro conjI impI)
  assume ok: "status (response (register_route E s req now)) = 201"
  have valid: "fst (registerSchema E (body req)) = []"
    using ok register_route_invalid[of E req s now] by auto
  then obtain raw where raw: "rb_email (body req) = Some raw"
    using registerSchema_valid_email by blast
  note r = register_route_valid[OF valid]
  from ok obtain user where
    "users (store (register_route E s req now)) = users s @ [user]"
    "u_email user = ri_email (snd (registerSchema E (body req)))"
    unfolding r using register_created by blast
  with raw show "\<exists>raw user. rb_email (body req) = Some raw \<and>
         users (store (register_route E s req now)) = users s @ [user] \<and>
         u_email user = trim (toLowerCase raw)"
    by (auto simp: registerSchema_email)
next
  assume a: "fst (registerSchema E (body req)) = [] \<and> rb_email (body req) = Some raw' \<and>
    existing \<in> set (users s) \<and> u_email existing = trim (toLowerCase (u_email existing)) \<and>
    toLowerCase raw' = toLowerCase (u_email existing)"
  then have e: "u_email existing = ri_email (snd (registerSchema E (body req)))"
    by (simp add: registerSchema_email)
  have "register_route E s req now =
     \<lparr>store = s, response = json_error 400 ''User with this email already exists'',
      logs = [Log_warn ''Registration failed: user already exists'']\<rparr>"
    using a register_duplicate[OF _ e] by (simp add: register_route_valid)
  then show "response (register_route E s req now) =
        json_error 400 ''User with this email already exists''"
    and "store (register_route E s req now) = s"
    by simp_all
next
  show "trim (toLowerCase ''JOHN@X.com'') = ''john@x.com''" by code_simp
qed

text \<open>
  C9 on the reference environment: John registers as \<open>JOHN@X.com\<close> on the empty store;
  a second registration as \<open>John@X.Com\<close> is refused.
\<close>

theorem register_normalizes_and_rejects_duplicates_witness:
  "status (response (register_route ref_env empty_db john_registers 1700000000000)) = 201 \<and>
   map u_email (users (store (register_route ref_env empty_db john_registers 1700000000000))) =
     [''john@x.com''] \<and>
   fst (registerSchema ref_env (body john_registers_again)) = [] \<and>
   rb_email (body john_registers_again) = Some ''John@X.Com'' \<and>
   john \<in> set (users ref_db) \<and> u_email john = trim (toLowerCase (u_email john)) \<and>
   toLowerCase ''John@X.Com'' = toLowerCase (u_email john) \<and>
   response (register_route ref_env ref_db john_registers_again 1700000005000) =
     json_error 400 ''User with this email already exists'' \<and>
   store (register_route ref_env ref_db john_registers_again 1700000005000) = ref_db"
proof -
  have ok: "status (response (register_route ref_env empty_db john_registers 1700000000000)) = 201"
    by code_simp
  have raw: "rb_email (body john_registers) = Some ''JOHN@X.com''"
    by (simp add: john_registers_def)
  have none: "users empty_db = []" by (simp add: empty_db_def)
  from register_normalizes_and_rejects_duplicates[of ref_env empty_db john_registers
      1700000000000] ok raw none
  have stored:
    "map u_email (users (store (register_route ref_env empty_db john_registers 1700000000000))) =
       [''john@x.com'']"
    by auto
  have h1: "fst (registerSchema ref_env (body john_registers_again)) = []" by code_simp
  have h2: "rb_email (body john_registers_again) = Some ''John@X.Com''"
    by (simp add: john_registers_again_def)
  have h3: "john \<in> set (users ref_db)" by (simp add: ref_db_value)
  have h4: "u_email john = trim (toLowerCase (u_email john))" by code_simp
  have h5: "toLowerCase ''John@X.Com'' = toLowerCase (u_email john)" by code_simp
  from register_normalizes_and_rejects_duplicates[of ref_env ref_db john_registers_again
      1700000005000 "''John@X.Com''" john] h1 h2 h3 h4 h5
  have refused: "response (register_route ref_env ref_db john_registers_again 1700000005000) =
       json_error 400 ''User with this email already exists'' \<and>
     store (register_route ref_env ref_db john_registers_again 1700000005000) = ref_db"
    by blast
  from ok stored h1 h2 h3 h4 h5 refused show ?thesis by simp
qed
section \<open>The constraints hold in every store the routes produce\<close>

lemma store_ok_empty: "store_ok empty_db"
  by (simp add: store_ok_def empty_db_def)

lemma insert_user_ok:
  assumes "store_ok s" "insert_user s n e p now = Inr (s', u)"
  shows "store_ok s'"
  using assms
  by (fastforce simp: store_ok_def insert_user_def Let_def less_Suc_eq split: if_splits)

lemma insert_refreshToken_ok:
  assumes "store_ok s" "insert_refreshToken s uid tok d now = Inr s'"
  shows "store_ok s'"
  using assms
  by (fastforce simp: store_ok_def insert_refreshToken_def less_Suc_eq
      split: if_splits date.splits)

lemma delete_refreshToken_by_id_ok:
  "store_ok s \<Longrightarrow> store_ok (delete_refreshToken_by_id s i)"
  by (auto simp: store_ok_def delete_refreshToken_by_id_def distinct_map_filter)

lemma delete_refreshToken_by_token_ok:
  "store_ok s \<Longrightarrow> store_ok (delete_refreshToken_by_token s t)"
  by (auto simp: store_ok_def delete_refreshToken_by_token_def distinct_map_filter)

lemma register_ok:
  assumes "store_ok s"
  shows "store_ok (store (register E s input now))"
  using assms
  by (auto simp: register_def Let_def caught_def
      split: option.splits sum.splits prod.splits
      intro: insert_user_ok insert_refreshToken_ok)

lemma login_ok:
  assumes "store_ok s"
  shows "store_ok (store (login E s input now))"
  using assms
  by (auto simp: login_def Let_def caught_def
      split: option.splits sum.splits
      intro: insert_refreshToken_ok)

lemma refreshToken_ok:
  assumes "store_ok s"
  shows "store_ok (store (refreshToken E s input now))"
  using assms
  by (auto simp: refreshToken_def Let_def caught_def
      split: option.splits sum.splits prod.splits
      intro: insert_refreshToken_ok delete_refreshToken_by_id_ok)

lemma logout_ok:
  assumes "store_ok s"
  shows "store_ok (store (logout s input user))"
  using assms by (simp add: logout_def Let_def delete_refreshToken_by_token_ok)

lemma serve_ok:
  assumes "store_ok s"
  shows "store_ok (store (serve E s c now))"
  using assms
  by (auto simp: serve_def register_route_def login_route_def refresh_route_def
      logout_route_def stopped_def register_ok login_ok refreshToken_ok logout_ok
      split: call.splits sum.splits)

lemma serve_all_ok: "store_ok s \<Longrightarrow> store_ok (serve_all E s cs)"
  by (induction cs arbitrary: s) (auto simp: serve_ok)
text \<open>
  The form in which the schemas pass an email on is stable: normalising twice is
  normalising once. So every email that a registration stores is in that form.
\<close>

lemma is_space_lower_char: "is_space (lower_char c) = is_space c"
  by (auto simp: is_space_def lower_char_def is_upper_def)

lemma lower_char_idem: "lower_char (lower_char c) = lower_char c"
  by (auto simp: lower_char_def is_upper_def)

lemma toLowerCase_idem: "toLowerCase (toLowerCase v) = toLowerCase v"
  by (simp add: toLowerCase_def lower_char_idem)

lemma toLowerCase_dropWhile:
  "dropWhile is_space (toLowerCase v) = toLowerCase (dropWhile is_space v)"
  by (simp add: toLowerCase_def dropWhile_map comp_def is_space_lower_char)

lemma toLowerCase_trim: "toLowerCase (trim v) = trim (toLowerCase v)"
proof -
  have r: "rev (toLowerCase w) = toLowerCase (rev w)" for w
    by (simp add: toLowerCase_def rev_map)
  show ?thesis
    by (simp add: trim_def toLowerCase_dropWhile r)
qed

lemma trim_idem: "trim (trim v) = trim v"
proof -
  let ?y = "dropWhile is_space v"
  let ?z = "rev (dropWhile is_space (rev ?y))"
  have y: "?y = ?z @ rev (takeWhile is_space (rev ?y))"
    by (metis rev_append rev_rev_ident takeWhile_dropWhile_id)
  have "dropWhile is_space ?z = ?z"
  proof (cases "?z = []")
    case True
    show ?thesis unfolding True by simp
  next
    case False
    then have "hd ?z = hd ?y" using y by (metis hd_append2)
    moreover have "?y \<noteq> []" using False y by (metis append_is_Nil_conv)
    then have "\<not> is_space (hd ?y)" by (rule hd_dropWhile)
    ultimately show ?thesis using False by (simp add: dropWhile_eq_self_iff)
  qed
  then show ?thesis by (simp add: trim_def)
qed

lemma normal_form_idem:
  "trim (toLowerCase (trim (toLowerCase v))) = trim (toLowerCase v)"
  by (simp add: toLowerCase_trim toLowerCase_idem trim_idem)

lemma insert_refreshToken_users:
  "insert_refreshToken s uid tok d now = Inr s' \<Longrightarrow> users s' = users s"
  by (auto simp: insert_refreshToken_def split: date.splits if_splits)

lemma register_users:
  "users (store (register E s input now)) = users s \<or>
   (\<exists>user. users (store (register E s input now)) = users s @ [user] \<and>
      u_email user = ri_email input)"
  by (auto simp: register_def Let_def caught_def insert_user_def
      split: option.splits sum.splits prod.splits if_splits
      dest!: insert_refreshToken_users)

lemma login_users: "users (store (login E s input now)) = users s"
  by (auto simp: login_def Let_def caught_def split: option.splits sum.splits
      dest!: insert_refreshToken_users)

lemma refreshToken_users: "users (store (refreshToken E s input now)) = users s"
  by (auto simp: refreshToken_def Let_def caught_def delete_refreshToken_by_id_def
      split: option.splits sum.splits prod.splits
      dest!: insert_refreshToken_users)

lemma logout_users: "users (store (logout s input user)) = users s"
  by (simp add: logout_def Let_def delete_refreshToken_by_token_def)

lemma register_route_emails_normal:
  assumes "emails_normal s"
  shows "emails_normal (store (register_route E s req now))"
proof (cases "fst (registerSchema E (body req)) = []")
  case True
  then obtain raw where raw: "rb_email (body req) = Some raw"
    using registerSchema_valid_email by blast
  have e: "ri_email (snd (registerSchema E (body req))) = trim (toLowerCase raw)"
    using raw by (rule registerSchema_email)
  show ?thesis
    using assms register_users[of E s "snd (registerSchema E (body req))" now]
    unfolding register_route_valid[OF True] emails_normal_def e
    by (auto simp: normal_form_idem)
next
  case False
  then show ?thesis using assms register_route_invalid[of E req s now] by simp
qed

lemma serve_emails_normal:
  assumes "emails_normal s"
  shows "emails_normal (store (serve E s c now))"
proof (cases c)
  case (Register req)
  then show ?thesis using assms by (simp add: serve_def register_route_emails_normal)
next
  case (Login req)
  then show ?thesis
    using assms
    by (auto simp: serve_def login_route_def stopped_def emails_normal_def login_users
        split: sum.splits)
next
  case (Refresh req)
  then show ?thesis
    using assms
    by (auto simp: serve_def refresh_route_def stopped_def emails_normal_def refreshToken_users
        split: sum.splits)
next
  case (Logout req)
  then show ?thesis
    using assms
    by (auto simp: serve_def logout_route_def stopped_def emails_normal_def logout_users
        split: sum.splits)
qed

lemma serve_all_emails_normal: "emails_normal s \<Longrightarrow> emails_normal (serve_all E s cs)"
  by (induction cs arbitrary: s) (auto simp: serve_emails_normal)

text \<open>
  Every store that a run of calls produces from the empty store meets the constraints
  and holds normalised emails: the hypotheses on the store in the theorems above are
  met by every store the routes can produce.
\<close>

lemma reachable_store:
  "store_ok (serve_all E empty_db cs) \<and> emails_normal (serve_all E empty_db cs)"
proof -
  have "emails_normal empty_db" by (simp add: emails_normal_def empty_db_def)
  then show ?thesis
    using serve_all_ok[OF store_ok_empty] serve_all_emails_normal by blast
qed

end
